theory Spec2Isabelle
  imports Main "HOL-Library.AList"
begin

section \<open>JavaScript values\<close>

text \<open>
  The server is a set of Express route handlers over a MongoDB connection.  Each handler
  reads documents, reshapes them with \<^verbatim>\<open>||\<close>, \<^verbatim>\<open>Number\<close>, \<^verbatim>\<open>String\<close>, object spread and
  \<^verbatim>\<open>reduce\<close>, and hands one value to \<^verbatim>\<open>res.json\<close>.  The handlers are modelled as functions
  from the state of the database to that response.

  Numbers.  A JavaScript number is \<^verbatim>\<open>NaN\<close>, an infinity, or a finite value.  A finite value
  is kept as an exact decimal: \<open>Fin m s\<close> stands for \<open>m / 10 ^ s\<close>, written with the
  fewest decimal places (\<open>s = 0\<close>, or the last digit of \<open>m\<close> is not \<open>0\<close>).  Every IEEE double
  and every decimal literal is such a value.  Arithmetic is exact: binary rounding,
  overflow to an infinity and the sign of zero are outside the model.
\<close>

datatype jsnum = NaN | PInf | NInf | Fin int nat

datatype jsval =
    JUndefined
  | JNull
  | JBool bool
  | JNum jsnum
  | JStr string
  | JArr "jsval list"
  | JObj "(string \<times> jsval) list"

type_synonym obj = "(string \<times> jsval) list"

text \<open>Strip the trailing zeros of the decimal places.\<close>

fun norm_dec :: "int \<Rightarrow> nat \<Rightarrow> jsnum" where
  "norm_dec m 0 = Fin m 0"
| "norm_dec m (Suc s) = (if m mod 10 = 0 then norm_dec (m div 10) s else Fin m (Suc s))"


fun js_neg :: "jsnum \<Rightarrow> jsnum" where
  "js_neg NaN = NaN"
| "js_neg PInf = NInf"
| "js_neg NInf = PInf"
| "js_neg (Fin m s) = Fin (- m) s"


text \<open>ToBoolean: the falsy values are \<^verbatim>\<open>undefined\<close>, \<^verbatim>\<open>null\<close>, \<^verbatim>\<open>false\<close>, \<^verbatim>\<open>0\<close>, \<^verbatim>\<open>NaN\<close> and \<^verbatim>\<open>''\<close>.\<close>

fun num_truthy :: "jsnum \<Rightarrow> bool" where
  "num_truthy NaN = False"
| "num_truthy (Fin m s) = (m \<noteq> 0)"
| "num_truthy _ = True"

fun truthy :: "jsval \<Rightarrow> bool" where
  "truthy JUndefined = False"
| "truthy JNull = False"
| "truthy (JBool b) = b"
| "truthy (JNum n) = num_truthy n"
| "truthy (JStr s) = (s \<noteq> [])"
| "truthy (JArr xs) = True"
| "truthy (JObj ps) = True"

text \<open>The operator \<^verbatim>\<open>a || b\<close>: \<open>a\<close> when it is truthy, else \<open>b\<close>.\<close>

definition js_or :: "jsval \<Rightarrow> jsval \<Rightarrow> jsval" where
  "js_or a b = (if truthy a then a else b)"

text \<open>Reading a property of a document: \<^verbatim>\<open>undefined\<close> when the document has no such field.\<close>

definition field :: "obj \<Rightarrow> string \<Rightarrow> jsval" where
  "field d k = (case map_of d k of None \<Rightarrow> JUndefined | Some v \<Rightarrow> v)"

subsection \<open>String to number\<close>

text \<open>
  \<^verbatim>\<open>Number(s)\<close> on a string follows the StringNumericLiteral grammar: white space is
  trimmed, the empty string is \<open>0\<close>, then a binary, octal or hexadecimal integer without
  sign, or a signed decimal literal (\<^verbatim>\<open>Infinity\<close>, digits with an optional fraction and
  exponent); anything else is \<^verbatim>\<open>NaN\<close>.  Strings are ASCII here.
\<close>

definition is_ws :: "char \<Rightarrow> bool" where
  "is_ws c = (c \<in> set [CHR 0x09, CHR 0x0A, CHR 0x0B, CHR 0x0C, CHR 0x0D, CHR '' ''])"

definition trim :: "string \<Rightarrow> string" where
  "trim s = rev (dropWhile is_ws (rev (dropWhile is_ws s)))"

definition hex_val :: "char \<Rightarrow> nat option" where
  "hex_val c = map_of
     [(CHR ''0'', 0), (CHR ''1'', 1), (CHR ''2'', 2), (CHR ''3'', 3), (CHR ''4'', 4),
      (CHR ''5'', 5), (CHR ''6'', 6), (CHR ''7'', 7), (CHR ''8'', 8), (CHR ''9'', 9),
      (CHR ''a'', 10), (CHR ''b'', 11), (CHR ''c'', 12), (CHR ''d'', 13), (CHR ''e'', 14),
      (CHR ''f'', 15), (CHR ''A'', 10), (CHR ''B'', 11), (CHR ''C'', 12), (CHR ''D'', 13),
      (CHR ''E'', 14), (CHR ''F'', 15)] c"

definition is_digit_in :: "nat \<Rightarrow> char \<Rightarrow> bool" where
  "is_digit_in b c = (case hex_val c of None \<Rightarrow> False | Some v \<Rightarrow> v < b)"

definition digits_val :: "nat \<Rightarrow> string \<Rightarrow> nat" where
  "digits_val b ds = foldl (\<lambda>a c. b * a + (case hex_val c of None \<Rightarrow> 0 | Some v \<Rightarrow> v)) 0 ds"

definition radix_literal :: "nat \<Rightarrow> string \<Rightarrow> jsnum" where
  "radix_literal b ds =
     (if ds \<noteq> [] \<and> list_all (is_digit_in b) ds then Fin (int (digits_val b ds)) 0 else NaN)"

text \<open>The exponent part: empty, or \<^verbatim>\<open>e\<close> or \<^verbatim>\<open>E\<close>, an optional sign and at least one digit.\<close>

definition signed_digits :: "string \<Rightarrow> int option" where
  "signed_digits s =
     (let (neg, ds) = (case s of
            c # t \<Rightarrow> if c = CHR ''-'' then (True, t) else if c = CHR ''+'' then (False, t)
                     else (False, s)
          | [] \<Rightarrow> (False, s))
      in if ds \<noteq> [] \<and> list_all (is_digit_in 10) ds
         then Some (if neg then - int (digits_val 10 ds) else int (digits_val 10 ds))
         else None)"

definition exponent_part :: "string \<Rightarrow> int option" where
  "exponent_part s =
     (case s of
        [] \<Rightarrow> Some 0
      | c # t \<Rightarrow> if c = CHR ''e'' \<or> c = CHR ''E'' then signed_digits t else None)"

text \<open>\<open>d \<times> 10 ^ e\<close> for a natural number \<open>d\<close>.\<close>

definition scale10 :: "nat \<Rightarrow> int \<Rightarrow> jsnum" where
  "scale10 d e = (if 0 \<le> e then Fin (int d * 10 ^ nat e) 0 else norm_dec (int d) (nat (- e)))"

definition unsigned_decimal :: "string \<Rightarrow> jsnum" where
  "unsigned_decimal s =
     (if s = ''Infinity'' then PInf
      else
        let ip = takeWhile (is_digit_in 10) s;
            r1 = dropWhile (is_digit_in 10) s;
            (fp, r2) = (case r1 of
                 c # t \<Rightarrow> if c = CHR ''.''
                          then (takeWhile (is_digit_in 10) t, dropWhile (is_digit_in 10) t)
                          else ([], r1)
               | [] \<Rightarrow> ([], r1))
        in if ip = [] \<and> fp = [] then NaN
           else (case exponent_part r2 of
                   None \<Rightarrow> NaN
                 | Some e \<Rightarrow> scale10 (digits_val 10 (ip @ fp)) (e - int (length fp))))"

definition StringToNumber :: "string \<Rightarrow> jsnum" where
  "StringToNumber s =
     (case trim s of
        [] \<Rightarrow> Fin 0 0
      | [c] \<Rightarrow> unsigned_decimal [c]
      | c # d # t \<Rightarrow>
          if c = CHR ''0'' \<and> (d = CHR ''x'' \<or> d = CHR ''X'') then radix_literal 16 t
          else if c = CHR ''0'' \<and> (d = CHR ''o'' \<or> d = CHR ''O'') then radix_literal 8 t
          else if c = CHR ''0'' \<and> (d = CHR ''b'' \<or> d = CHR ''B'') then radix_literal 2 t
          else if c = CHR ''+'' then unsigned_decimal (d # t)
          else if c = CHR ''-'' then js_neg (unsigned_decimal (d # t))
          else unsigned_decimal (c # d # t))"

subsection \<open>Number to string\<close>

text \<open>
  \<^verbatim>\<open>String(n)\<close> on a number, Number::toString: with \<open>k\<close> significant digits and the decimal
  point after the \<open>n\<close>-th of them, the digits are written plainly for \<open>-6 < n \<le> 21\<close> and in
  exponent notation otherwise.
\<close>

fun digit_char :: "nat \<Rightarrow> char" where
  "digit_char n = ''0123456789'' ! (n mod 10)"

fun digits_of :: "nat \<Rightarrow> string" where
  "digits_of n = (if n < 10 then [digit_char n] else digits_of (n div 10) @ [digit_char n])"

definition strip_zeros :: "string \<Rightarrow> string" where
  "strip_zeros ds = rev (dropWhile (\<lambda>c. c = CHR ''0'') (rev ds))"

definition exp_suffix :: "int \<Rightarrow> string" where
  "exp_suffix e = CHR ''e'' # (if e < 0 then CHR ''-'' else CHR ''+'') # digits_of (nat \<bar>e\<bar>)"

definition format_digits :: "string \<Rightarrow> int \<Rightarrow> string" where
  "format_digits sig n =
     (let k = int (length sig) in
      if k \<le> n \<and> n \<le> 21 then sig @ replicate (nat (n - k)) CHR ''0''
      else if 0 < n \<and> n \<le> 21 then take (nat n) sig @ CHR ''.'' # drop (nat n) sig
      else if - 6 < n \<and> n \<le> 0 then ''0.'' @ replicate (nat (- n)) CHR ''0'' @ sig
      else if k = 1 then sig @ exp_suffix (n - 1)
      else hd sig # CHR ''.'' # tl sig @ exp_suffix (n - 1))"

fun num_to_string :: "jsnum \<Rightarrow> string" where
  "num_to_string NaN = ''NaN''"
| "num_to_string PInf = ''Infinity''"
| "num_to_string NInf = ''-Infinity''"
| "num_to_string (Fin m s) =
     (if m = 0 then ''0''
      else
        let ds = digits_of (nat \<bar>m\<bar>);
            body = format_digits (strip_zeros ds) (int (length ds) - int s)
        in if m < 0 then CHR ''-'' # body else body)"

subsection \<open>The conversions \<^verbatim>\<open>String\<close> and \<^verbatim>\<open>Number\<close>\<close>

fun join :: "string \<Rightarrow> string list \<Rightarrow> string" where
  "join sep [] = []"
| "join sep [x] = x"
| "join sep (x # y # ys) = x @ sep @ join sep (y # ys)"

text \<open>
  An array is converted by joining its elements with commas, \<^verbatim>\<open>undefined\<close> and \<^verbatim>\<open>null\<close>
  elements giving the empty string; a plain object is \<^verbatim>\<open>[object Object]\<close>.
\<close>

fun js_String :: "jsval \<Rightarrow> string" where
  "js_String JUndefined = ''undefined''"
| "js_String JNull = ''null''"
| "js_String (JBool b) = (if b then ''true'' else ''false'')"
| "js_String (JNum n) = num_to_string n"
| "js_String (JStr s) = s"
| "js_String (JArr xs) =
     join '','' (map (\<lambda>x. if x = JUndefined \<or> x = JNull then [] else js_String x) xs)"
| "js_String (JObj ps) = ''[object Object]''"

fun js_Number :: "jsval \<Rightarrow> jsnum" where
  "js_Number JUndefined = NaN"
| "js_Number JNull = Fin 0 0"
| "js_Number (JBool b) = (if b then Fin 1 0 else Fin 0 0)"
| "js_Number (JNum n) = n"
| "js_Number (JStr s) = StringToNumber s"
| "js_Number (JArr xs) = StringToNumber (js_String (JArr xs))"
| "js_Number (JObj ps) = StringToNumber (js_String (JObj ps))"

text \<open>\<^verbatim>\<open>n || 0\<close> for a number \<open>n\<close>, as in \<^verbatim>\<open>Number(x) || 0\<close>.\<close>

definition num_or0 :: "jsnum \<Rightarrow> jsnum" where
  "num_or0 n = (if num_truthy n then n else Fin 0 0)"

text \<open>
  The object literal \<^verbatim>\<open>{ ...p, k1: v1, ..., kn: vn }\<close>: the fields of \<open>p\<close> in their order,
  each \<open>ki\<close> then set to \<open>vi\<close>, in place when \<open>p\<close> has the field and at the end otherwise.
\<close>

definition spread :: "obj \<Rightarrow> obj \<Rightarrow> obj" where
  "spread p kvs = foldl (\<lambda>acc (k, v). AList.update k v acc) p kvs"

section \<open>The database and the responses\<close>

text \<open>
  The state of the store: for every collection name, either the documents of that
  collection, in their natural order, or the failure of every query on it (the driver
  throws).  A name that the store does not know has no documents.
\<close>

datatype error = QueryError

type_synonym db = "string \<Rightarrow> error + obj list"

text \<open>\<^verbatim>\<open>collection(name).find({}).toArray()\<close>\<close>

definition find_all :: "db \<Rightarrow> string \<Rightarrow> error + obj list" where
  "find_all db name = db name"

text \<open>\<^verbatim>\<open>collection(name).countDocuments()\<close>\<close>

definition countDocuments :: "db \<Rightarrow> string \<Rightarrow> error + nat" where
  "countDocuments db name = (case db name of Inl e \<Rightarrow> Inl e | Inr docs \<Rightarrow> Inr (length docs))"

text \<open>
  \<^verbatim>\<open>collection(name).findOne(query)\<close> for a query that gives a value for some fields: the
  first document whose fields are equal to these values, or \<^verbatim>\<open>null\<close> (here \<open>None\<close>).  The
  login asks for two strings, and a stored field matches when it is that string.
\<close>

definition matches :: "obj \<Rightarrow> obj \<Rightarrow> bool" where
  "matches query d = list_all (\<lambda>(k, v). field d k = v) query"

definition findOne :: "db \<Rightarrow> string \<Rightarrow> obj \<Rightarrow> error + obj option" where
  "findOne db name query =
     (case db name of Inl e \<Rightarrow> Inl e | Inr docs \<Rightarrow> Inr (find (matches query) docs))"

text \<open>\<^verbatim>\<open>Promise.all\<close>: the values of all the queries, or a failure as soon as one fails.\<close>

fun promise_all :: "(error + 'a) list \<Rightarrow> error + 'a list" where
  "promise_all [] = Inr []"
| "promise_all (r # rs) =
     (case r of
        Inl e \<Rightarrow> Inl e
      | Inr v \<Rightarrow> (case promise_all rs of Inl e \<Rightarrow> Inl e | Inr vs \<Rightarrow> Inr (v # vs)))"

text \<open>
  A response: the HTTP status and the value given to \<^verbatim>\<open>res.json\<close>, before it is written
  as JSON text.
\<close>

record response =
  status :: nat
  body :: jsval

definition json :: "jsval \<Rightarrow> response" where
  "json b = \<lparr>status = 200, body = b\<rparr>"

definition status_json :: "nat \<Rightarrow> jsval \<Rightarrow> response" where
  "status_json c b = \<lparr>status = c, body = b\<rparr>"

section \<open>The routes\<close>

subsection \<open>POST /api/login\<close>

text \<open>The body of the request gives two strings, \<open>username\<close> and \<open>password\<close>.\<close>

definition login :: "db \<Rightarrow> string \<Rightarrow> string \<Rightarrow> response" where
  "login db username password =
     (case findOne db ''UsersMIS'' [(''username'', JStr username), (''password'', JStr password)] of
        Inl e \<Rightarrow>
          status_json 500 (JObj [(''success'', JBool False), (''message'', JStr ''Server error'')])
      | Inr None \<Rightarrow>
          status_json 401
            (JObj [(''success'', JBool False), (''message'', JStr ''Invalid credentials'')])
      | Inr (Some user) \<Rightarrow>
          json (JObj [(''success'', JBool True),
                      (''user'', JObj
                         [(''username'', field user ''username''),
                          (''role'', js_or (field user ''role'') (JStr ''user'')),
                          (''name'', js_or (field user ''name'') (field user ''username''))])]))"

subsection \<open>GET /api/collections/:collectionName\<close>

definition VALID_COLLECTIONS :: "string list" where
  "VALID_COLLECTIONS =
     [''ParticipantPROFILE'', ''DealerPROFILE'', ''CooperativePROFILE'', ''AgrovetPROFILE'',
      ''A2F'', ''A2M'']"

definition get_collection :: "db \<Rightarrow> string \<Rightarrow> response" where
  "get_collection db collectionName =
     (case find_all db collectionName of
        Inl e \<Rightarrow>
          status_json 500
            (JObj [(''success'', JBool False), (''message'', JStr ''Error fetching data'')])
      | Inr data \<Rightarrow> json (JObj [(''success'', JBool True), (''data'', JArr (map JObj data))]))"

subsection \<open>GET /api/participants\<close>

definition participant_fields :: "string list" where
  "participant_fields =
     [''ID'', ''ParticipantNAME'', ''ParticipantGENDER'', ''WorkingSectorP4P'',
      ''pAddressDISTRICT'', ''EthnicCultureBACKGROUND'']"

definition clean_participant :: "obj \<Rightarrow> obj" where
  "clean_participant p = spread p
     [(''ID'', JStr (js_String (js_or (field p ''ID'') (JStr [])))),
      (''ParticipantNAME'', JStr (js_String (js_or (field p ''ParticipantNAME'') (JStr [])))),
      (''ParticipantGENDER'', JStr (js_String (js_or (field p ''ParticipantGENDER'') (JStr [])))),
      (''WorkingSectorP4P'', JStr (js_String (js_or (field p ''WorkingSectorP4P'') (JStr [])))),
      (''pAddressDISTRICT'', JStr (js_String (js_or (field p ''pAddressDISTRICT'') (JStr [])))),
      (''EthnicCultureBACKGROUND'',
         JStr (js_String (js_or (field p ''EthnicCultureBACKGROUND'') (JStr []))))]"

definition participants :: "db \<Rightarrow> response" where
  "participants db =
     (case find_all db ''ParticipantPROFILE'' of
        Inl e \<Rightarrow>
          status_json 500
            (JObj [(''success'', JBool False), (''message'', JStr ''Error fetching data'')])
      | Inr data \<Rightarrow>
          json (JObj [(''success'', JBool True),
                      (''data'', JArr (map (\<lambda>p. JObj (clean_participant p)) data))]))"

subsection \<open>GET /api/leverages\<close>








subsection \<open>GET /api/market-surveys\<close>

definition survey_collections :: "string list" where
  "survey_collections =
     [''MarketSurveyAQUA'', ''MarketSurveyCATTLE'', ''MarketSurveyFH'', ''MarketSurveyMAIZE'',
      ''MarketSurveyPOULTRY'', ''MarketSurveyQSR'']"

definition market_surveys :: "db \<Rightarrow> response" where
  "market_surveys db =
     (case promise_all (map (countDocuments db) survey_collections) of
        Inr [aqua, cattle, fh, maize, poultry, qsr] \<Rightarrow>
          json (JObj [(''success'', JBool True),
                      (''data'', JObj
                         [(''aqua'', JNum (Fin (int aqua) 0)),
                          (''cattle'', JNum (Fin (int cattle) 0)),
                          (''fh'', JNum (Fin (int fh) 0)),
                          (''maize'', JNum (Fin (int maize) 0)),
                          (''poultry'', JNum (Fin (int poultry) 0)),
                          (''qsr'', JNum (Fin (int qsr) 0))])])
      | _ \<Rightarrow>
          status_json 500
            (JObj [(''success'', JBool False), (''message'', JStr ''Error fetching data'')]))"

subsection \<open>GET /api/productivity\<close>

record productivity_data =
  sectors :: "jsval list"
  baseline :: "jsval list"
  earlyassessment :: "jsval list"
  growth :: "jsval list"

text \<open>One step of the \<^verbatim>\<open>reduce\<close>: \<^verbatim>\<open>push\<close> adds at the end of each array.\<close>

definition productivity_step :: "productivity_data \<Rightarrow> obj \<Rightarrow> productivity_data" where
  "productivity_step acc item =
     \<lparr>sectors = sectors acc @ [field item ''Sector''],
      baseline = baseline acc @ [field item ''BaseLine''],
      earlyassessment = earlyassessment acc @ [field item ''Early Productivity Assessment''],
      growth = growth acc @ [field item ''% Growth'']\<rparr>"

definition productivityData :: "obj list \<Rightarrow> productivity_data" where
  "productivityData data =
     foldl productivity_step
       \<lparr>sectors = [], baseline = [], earlyassessment = [], growth = []\<rparr> data"

definition productivity :: "db \<Rightarrow> response" where
  "productivity db =
     (case find_all db ''Productivity'' of
        Inl e \<Rightarrow>
          status_json 500
            (JObj [(''success'', JBool False), (''message'', JStr ''Error fetching data'')])
      | Inr data \<Rightarrow>
          json (JObj [(''success'', JBool True),
                      (''data'', JObj
                         [(''sectors'', JArr (sectors (productivityData data))),
                          (''baseline'', JArr (baseline (productivityData data))),
                          (''earlyassessment'', JArr (earlyassessment (productivityData data))),
                          (''growth'', JArr (growth (productivityData data)))])]))"

subsection \<open>GET /api/a2f and GET /api/a2m\<close>

definition a2f_fields :: "string list" where
  "a2f_fields =
     [''ParticipantID'', ''ParticipantAGE'', ''LoanAmountAPPLIED'', ''LoanAmountAPPROVED'',
      ''LoanPERIOD'', ''InterestRATE'', ''InsurancePERIOD'', ''InsuranceCOVERAGE'']"

definition clean_a2f :: "obj \<Rightarrow> obj" where
  "clean_a2f item = spread item
     [(''ParticipantID'', JNum (num_or0 (js_Number (field item ''ParticipantID'')))),
      (''ParticipantAGE'', JNum (num_or0 (js_Number (field item ''ParticipantAGE'')))),
      (''LoanAmountAPPLIED'', JNum (num_or0 (js_Number (field item ''LoanAmountAPPLIED'')))),
      (''LoanAmountAPPROVED'', JNum (num_or0 (js_Number (field item ''LoanAmountAPPROVED'')))),
      (''LoanPERIOD'', JNum (num_or0 (js_Number (field item ''LoanPERIOD'')))),
      (''InterestRATE'', JNum (num_or0 (js_Number (field item ''InterestRATE'')))),
      (''InsurancePERIOD'', JNum (num_or0 (js_Number (field item ''InsurancePERIOD'')))),
      (''InsuranceCOVERAGE'', JNum (num_or0 (js_Number (field item ''InsuranceCOVERAGE''))))]"


definition a2m_fields :: "string list" where
  "a2m_fields =
     [''ParticipantID'', ''ParticipantAGE'', ''MarginalizedSTATUS'', ''EntityPHONE'',
      ''QtySOLD'', ''AmountSOLD'']"

definition clean_a2m :: "obj \<Rightarrow> obj" where
  "clean_a2m item = spread item
     [(''ParticipantID'', JNum (num_or0 (js_Number (field item ''ParticipantID'')))),
      (''ParticipantAGE'', JNum (num_or0 (js_Number (field item ''ParticipantAGE'')))),
      (''MarginalizedSTATUS'', JNum (num_or0 (js_Number (field item ''MarginalizedSTATUS'')))),
      (''EntityPHONE'', JNum (num_or0 (js_Number (field item ''EntityPHONE'')))),
      (''QtySOLD'', JNum (num_or0 (js_Number (field item ''QtySOLD'')))),
      (''AmountSOLD'', JNum (num_or0 (js_Number (field item ''AmountSOLD''))))]"


section \<open>The statements of the specification\<close>


text \<open>
  The \<open>user\<close> object of a successful login in the words of the specification: the role is
  the stored \<open>role\<close> field, or \<^verbatim>\<open>user\<close> when the document has no such field; the name is the
  stored \<open>name\<close> field, or the supplied username when the document has no such field.
\<close>

definition spec_login_user :: "obj \<Rightarrow> string \<Rightarrow> jsval" where
  "spec_login_user user username =
     JObj [(''username'', JStr username),
           (''role'', case map_of user ''role'' of None \<Rightarrow> JStr ''user'' | Some r \<Rightarrow> r),
           (''name'', case map_of user ''name'' of None \<Rightarrow> JStr username | Some n \<Rightarrow> n)]"

text \<open>
  A participant field in the words of the specification: the stored value coerced to
  string, or the empty string when the document has no such field.
\<close>

definition spec_string_field :: "obj \<Rightarrow> string \<Rightarrow> jsval" where
  "spec_string_field p k = (case map_of p k of None \<Rightarrow> JStr [] | Some v \<Rightarrow> JStr (js_String v))"


section \<open>Example states\<close>

definition alice :: obj where
  "alice =
     [(''username'', JStr ''alice''), (''password'', JStr ''secret''), (''role'', JStr []),
      (''name'', JStr [])]"

definition bob :: obj where
  "bob = [(''username'', JStr ''bob''), (''password'', JStr ''hunter2''), (''role'', JStr ''admin'')]"

definition example_users :: "obj list" where
  "example_users = [alice, bob]"


definition example_grants :: "obj list" where
  "example_grants =
     [[(''Entity'', JStr ''Bank''), (''Amount'', JStr ''12.5'')],
      [(''Entity'', JNull), (''Amount'', JNum (Fin 4 0))],
      [(''Entity'', JStr ''Bank''), (''Amount'', JStr ''n/a'')],
      [(''Entity'', JStr ''Bank''), (''Amount'', JNum (Fin 75 1))],
      [(''Amount'', JStr ''3'')]]"

definition example_productivity :: "obj list" where
  "example_productivity =
     [[(''Sector'', JStr ''Maize''), (''BaseLine'', JNum (Fin 10 0)),
       (''Early Productivity Assessment'', JNum (Fin 12 0)), (''% Growth'', JNum (Fin 20 0))],
      [(''Sector'', JStr ''Poultry''), (''BaseLine'', JNum (Fin 5 0)),
       (''Early Productivity Assessment'', JNum (Fin 5 0)), (''% Growth'', JNum (Fin 0 0))]]"

definition example_participant :: obj where
  "example_participant =
     [(''_id'', JStr ''p1''), (''ID'', JNum (Fin 0 0)), (''ParticipantNAME'', JStr ''Sita''),
      (''ParticipantAGE'', JNum (Fin 31 0)), (''WorkingSectorP4P'', JNum (Fin 125 1))]"

definition example_a2f :: obj where
  "example_a2f =
     [(''_id'', JStr ''f1''), (''ParticipantID'', JStr ''17''), (''ParticipantAGE'', JStr ''n/a''),
      (''LoanAmountAPPLIED'', JStr '' 12500.50 ''), (''Bank'', JStr ''NMB'')]"

definition example_a2m :: obj where
  "example_a2m =
     [(''_id'', JStr ''m1''), (''ParticipantID'', JStr ''17''), (''QtySOLD'', JStr ''1e3''),
      (''AmountSOLD'', JStr ''twelve''), (''Buyer'', JStr ''Coop'')]"

definition example_db :: db where
  "example_db name =
     (if name = ''UsersMIS'' then Inr example_users
      else if name = ''Leverages'' then Inr example_grants
      else if name = ''Productivity'' then Inr example_productivity
      else if name = ''ParticipantPROFILE'' then Inr [example_participant]
      else if name = ''A2F'' then Inr [example_a2f]
      else if name = ''A2M'' then Inr [example_a2m]
      else if name = ''MarketSurveyAQUA'' then Inr [[(''n'', JNum (Fin 1 0))], [(''n'', JNum (Fin 2 0))]]
      else if name = ''MarketSurveyMAIZE'' then Inr [[(''n'', JNum (Fin 3 0))]]
      else Inr [])"

text \<open>A store on which every query fails, and one where only one survey collection fails.\<close>

definition failing_db :: db where
  "failing_db name = Inl QueryError"

definition survey_down_db :: db where
  "survey_down_db name = (if name = ''MarketSurveyPOULTRY'' then Inl QueryError else example_db name)"

section \<open>Evaluation and auxiliary facts\<close>

declare digits_of.simps [simp del]

declare num_to_string.simps(4) [simp del]



lemmas number_print =
  num_to_string.simps digits_of.simps format_digits_def strip_zeros_def exp_suffix_def

lemma example_db_simps:
  "example_db ''UsersMIS'' = Inr example_users"
  "example_db ''Leverages'' = Inr example_grants"
  "example_db ''Productivity'' = Inr example_productivity"
  "example_db ''ParticipantPROFILE'' = Inr [example_participant]"
  "example_db ''A2F'' = Inr [example_a2f]"
  "example_db ''A2M'' = Inr [example_a2m]"
  by (simp_all add: example_db_def)

subsection \<open>Login\<close>

lemma matches_login:
  "matches [(''username'', JStr u), (''password'', JStr p)] d \<longleftrightarrow>
     field d ''username'' = JStr u \<and> field d ''password'' = JStr p"
  by (simp add: matches_def)

subsection \<open>Market surveys\<close>

lemma promise_all_fails: "Inl e \<in> set rs \<Longrightarrow> \<exists>e'. promise_all rs = Inl e'"
proof (induction rs)
  case Nil
  then show ?case by simp
next
  case (Cons r rs)
  show ?case
  proof (cases r)
    case (Inl a)
    then show ?thesis by simp
  next
    case (Inr v)
    with Cons.prems have "Inl e \<in> set rs" by auto
    from Cons.IH [OF this] Inr show ?thesis by auto
  qed
qed

lemma market_surveys_error:
  "promise_all (map (countDocuments db) survey_collections) = Inl e \<Longrightarrow>
   market_surveys db
     = status_json 500
         (JObj [(''success'', JBool False), (''message'', JStr ''Error fetching data'')])"
  by (simp add: market_surveys_def)

subsection \<open>Productivity\<close>

lemma productivityData_snoc:
  "productivityData (data @ [item]) = productivity_step (productivityData data) item"
  by (simp add: productivityData_def)

lemma productivityData_map:
  "productivityData data =
     \<lparr>sectors = map (\<lambda>d. field d ''Sector'') data,
      baseline = map (\<lambda>d. field d ''BaseLine'') data,
      earlyassessment = map (\<lambda>d. field d ''Early Productivity Assessment'') data,
      growth = map (\<lambda>d. field d ''% Growth'') data\<rparr>"
proof (induction data rule: rev_induct)
  case Nil
  show ?case by (simp add: productivityData_def)
next
  case (snoc item data)
  then show ?case by (simp add: productivityData_snoc productivity_step_def)
qed

subsection \<open>Object spread\<close>

lemma map_of_spread: "map_of (spread p kvs) = map_of p ++ map_of (rev kvs)"
  unfolding spread_def
proof (induction kvs arbitrary: p)
  case Nil
  show ?case by simp
next
  case (Cons kv kvs)
  obtain k v where kv: "kv = (k, v)" by (cases kv)
  have "map_of (foldl (\<lambda>acc (k, v). AList.update k v acc) p (kv # kvs))
        = map_of (AList.update k v p) ++ map_of (rev kvs)"
    using Cons.IH [of "AList.update k v p"] by (simp add: kv)
  also have "\<dots> = map_of p ++ map_of (rev (kv # kvs))"
    by (simp add: kv update_conv' fun_eq_iff map_add_def split: option.splits)
  finally show ?case .
qed

lemma field_spread:
  "field (spread p kvs) k = (case map_of (rev kvs) k of None \<Rightarrow> field p k | Some v \<Rightarrow> v)"
  by (simp add: field_def map_of_spread map_add_def split: option.splits)

lemma filter_update_other:
  "k \<in> K \<Longrightarrow> filter (\<lambda>e. fst e \<notin> K) (AList.update k v p) = filter (\<lambda>e. fst e \<notin> K) p"
  by (induction p) auto

lemma filter_spread:
  "fst ` set kvs \<subseteq> K \<Longrightarrow>
   filter (\<lambda>e. fst e \<notin> K) (spread p kvs) = filter (\<lambda>e. fst e \<notin> K) p"
  unfolding spread_def
  by (induction kvs arbitrary: p) (auto simp: filter_update_other)

lemma keys_spread: "fst ` set (spread p kvs) = fst ` set p \<union> fst ` set kvs"
  unfolding spread_def
proof (induction kvs arbitrary: p)
  case Nil
  show ?case by simp
next
  case (Cons kv kvs)
  show ?case
    using Cons.IH [of "AList.update (fst kv) (snd kv) p"]
    by (simp add: dom_update case_prod_beta Un_assoc)
qed

lemma field_absent: "map_of p k = None \<Longrightarrow> field p k = JUndefined"
  by (simp add: field_def)

lemma field_clean_participant:
  "k \<in> set participant_fields \<Longrightarrow>
   field (clean_participant p) k = JStr (js_String (js_or (field p k) (JStr [])))"
  by (auto simp: participant_fields_def clean_participant_def field_spread)



lemma other_clean_participant:
  "k \<notin> set participant_fields \<Longrightarrow> field (clean_participant p) k = field p k"
  by (simp add: participant_fields_def clean_participant_def field_spread)

lemma other_clean_a2f: "k \<notin> set a2f_fields \<Longrightarrow> field (clean_a2f item) k = field item k"
  by (simp add: a2f_fields_def clean_a2f_def field_spread)

lemma other_clean_a2m: "k \<notin> set a2m_fields \<Longrightarrow> field (clean_a2m item) k = field item k"
  by (simp add: a2m_fields_def clean_a2m_def field_spread)

subsection \<open>Numbers\<close>














subsection \<open>Leverages\<close>
















section \<open>The claims\<close>

text \<open>
  C1, as the specification states it: for every username and password for which a
  matching credential document exists in UsersMIS, the login responds
  \<^verbatim>\<open>{success: true, user: {username, role, name}}\<close> where \<open>role\<close> is the stored role field,
  or \<^verbatim>\<open>user\<close> when that field is absent, and \<open>name\<close> is the stored name field, or the supplied
  username when that field is absent.  This fails for a stored field that is present but
  falsy: alice's stored role and name are the empty string, and the response gives her
  the role \<^verbatim>\<open>user\<close> and the name \<^verbatim>\<open>alice\<close>.
\<close>

theorem login_present_falsy_role:
  "find (matches [(''username'', JStr ''alice''), (''password'', JStr ''secret'')]) example_users
     = Some alice
   \<and> map_of alice ''role'' = Some (JStr [])
   \<and> map_of alice ''name'' = Some (JStr [])
   \<and> login example_db ''alice'' ''secret''
       = json (JObj [(''success'', JBool True),
                     (''user'', JObj [(''username'', JStr ''alice''), (''role'', JStr ''user''),
                                      (''name'', JStr ''alice'')])])
   \<and> login example_db ''alice'' ''secret''
       \<noteq> json (JObj [(''success'', JBool True),
                     (''user'', spec_login_user alice ''alice'')])"
  by (simp add: login_def findOne_def example_db_simps example_users_def alice_def bob_def
      matches_login field_def js_or_def json_def spec_login_user_def)

text \<open>
  C1, amended: for every username and password for which a matching credential document
  exists in UsersMIS, the login responds with status 200 and
  \<^verbatim>\<open>{success: true, user: {username, role, name}}\<close> for the first matching document, where
  \<open>username\<close> is the supplied username, \<open>role\<close> is the stored role when that value is truthy
  and \<^verbatim>\<open>user\<close> otherwise (the field is absent, or holds the empty string, \<open>0\<close>, \<^verbatim>\<open>false\<close>,
  \<^verbatim>\<open>null\<close> or \<^verbatim>\<open>NaN\<close>), and \<open>name\<close> is the stored name when that value is truthy and the
  username otherwise.
\<close>

theorem login_success:
  assumes "db ''UsersMIS'' = Inr docs"
    and "d \<in> set docs"
    and "matches [(''username'', JStr username), (''password'', JStr password)] d"
  shows "\<exists>user.
           find (matches [(''username'', JStr username), (''password'', JStr password)]) docs
             = Some user
           \<and> login db username password
               = json (JObj [(''success'', JBool True),
                    (''user'', JObj
                       [(''username'', JStr username),
                        (''role'', if truthy (field user ''role'') then field user ''role''
                                   else JStr ''user''),
                        (''name'', if truthy (field user ''name'') then field user ''name''
                                   else JStr username)])])"
proof -
  let ?q = "[(''username'', JStr username), (''password'', JStr password)]"
  from assms(2,3) obtain user where found: "find (matches ?q) docs = Some user"
    by (cases "find (matches ?q) docs") (auto simp: find_None_iff)
  then have "matches ?q user"
    by (auto simp: find_Some_iff)
  then have "field user ''username'' = JStr username"
    by (simp add: matches_login)
  with found assms(1) show ?thesis
    by (simp add: login_def findOne_def js_or_def)
qed

theorem login_success_witness:
  "example_db ''UsersMIS'' = Inr example_users
   \<and> bob \<in> set example_users
   \<and> matches [(''username'', JStr ''bob''), (''password'', JStr ''hunter2'')] bob
   \<and> login example_db ''bob'' ''hunter2''
       = json (JObj [(''success'', JBool True),
                     (''user'', JObj [(''username'', JStr ''bob''), (''role'', JStr ''admin''),
                                      (''name'', JStr ''bob'')])])"
proof -
  have db: "example_db ''UsersMIS'' = Inr example_users"
    by (simp add: example_db_simps)
  have mem: "bob \<in> set example_users"
    by (simp add: example_users_def)
  have hit: "matches [(''username'', JStr ''bob''), (''password'', JStr ''hunter2'')] bob"
    by (simp add: matches_login bob_def field_def)
  show ?thesis
    using login_success [of example_db example_users bob "''bob''" "''hunter2''"] db mem hit
    by (simp add: example_users_def alice_def bob_def matches_login field_def)
qed

text \<open>
  C2: when no document of UsersMIS holds exactly the supplied username and password, the
  login responds with status 401 and \<^verbatim>\<open>{success: false, message: "Invalid credentials"}\<close>;
  when the query fails, it responds with status 500 and
  \<^verbatim>\<open>{success: false, message: "Server error"}\<close>.
\<close>

theorem login_failure:
  "(db ''UsersMIS'' = Inr docs
      \<and> (\<forall>d\<in>set docs. \<not> matches [(''username'', JStr username), (''password'', JStr password)] d)
    \<longrightarrow> login db username password
          = status_json 401
              (JObj [(''success'', JBool False), (''message'', JStr ''Invalid credentials'')]))
   \<and> (db ''UsersMIS'' = Inl e
    \<longrightarrow> login db username password
          = status_json 500
              (JObj [(''success'', JBool False), (''message'', JStr ''Server error'')]))"
proof (intro conjI impI)
  let ?q = "[(''username'', JStr username), (''password'', JStr password)]"
  assume "db ''UsersMIS'' = Inr docs \<and> (\<forall>d\<in>set docs. \<not> matches ?q d)"
  then have "db ''UsersMIS'' = Inr docs" and "find (matches ?q) docs = None"
    by (simp_all add: find_None_iff)
  then show "login db username password
          = status_json 401
              (JObj [(''success'', JBool False), (''message'', JStr ''Invalid credentials'')])"
    by (simp add: login_def findOne_def)
next
  assume "db ''UsersMIS'' = Inl e"
  then show "login db username password
          = status_json 500
              (JObj [(''success'', JBool False), (''message'', JStr ''Server error'')])"
    by (simp add: login_def findOne_def)
qed

theorem login_failure_witness:
  "example_db ''UsersMIS'' = Inr example_users
   \<and> \<not> matches [(''username'', JStr ''alice''), (''password'', JStr ''wrong'')] alice
   \<and> \<not> matches [(''username'', JStr ''alice''), (''password'', JStr ''wrong'')] bob
   \<and> login example_db ''alice'' ''wrong''
       = \<lparr>status = 401,
          body = JObj [(''success'', JBool False), (''message'', JStr ''Invalid credentials'')]\<rparr>
   \<and> failing_db ''UsersMIS'' = Inl QueryError
   \<and> login failing_db ''alice'' ''secret''
       = \<lparr>status = 500,
          body = JObj [(''success'', JBool False), (''message'', JStr ''Server error'')]\<rparr>"
  using login_failure [of example_db example_users "''alice''" "''wrong''" QueryError]
    login_failure [of failing_db example_users "''alice''" "''secret''" QueryError]
  by (simp add: example_db_simps failing_db_def example_users_def alice_def bob_def
      matches_login field_def status_json_def)






text \<open>
  C5: \<^verbatim>\<open>GET /api/productivity\<close> responds with four arrays \<open>sectors\<close>, \<open>baseline\<close>,
  \<open>earlyassessment\<close> and \<open>growth\<close>, each as long as the collection, whose \<open>i\<close>-th elements are
  the fields \<open>Sector\<close>, \<open>BaseLine\<close>, \<open>Early Productivity Assessment\<close> and \<open>% Growth\<close> of the
  \<open>i\<close>-th document; for the two documents of the example of the specification the arrays
  are \<open>[Maize, Poultry]\<close>, \<open>[10, 5]\<close>, \<open>[12, 5]\<close> and \<open>[20, 0]\<close>.
\<close>

theorem productivity_parallel_arrays:
  "(find_all db ''Productivity'' = Inr data \<longrightarrow>
      productivity db
        = json (JObj [(''success'', JBool True),
                      (''data'', JObj
                         [(''sectors'', JArr (sectors (productivityData data))),
                          (''baseline'', JArr (baseline (productivityData data))),
                          (''earlyassessment'', JArr (earlyassessment (productivityData data))),
                          (''growth'', JArr (growth (productivityData data)))])]))
   \<and> length (sectors (productivityData data)) = length data
   \<and> length (baseline (productivityData data)) = length data
   \<and> length (earlyassessment (productivityData data)) = length data
   \<and> length (growth (productivityData data)) = length data
   \<and> (\<forall>i<length data.
        sectors (productivityData data) ! i = field (data ! i) ''Sector''
        \<and> baseline (productivityData data) ! i = field (data ! i) ''BaseLine''
        \<and> earlyassessment (productivityData data) ! i
            = field (data ! i) ''Early Productivity Assessment''
        \<and> growth (productivityData data) ! i = field (data ! i) ''% Growth'')
   \<and> productivity example_db
       = json (JObj [(''success'', JBool True),
                     (''data'', JObj
                        [(''sectors'', JArr [JStr ''Maize'', JStr ''Poultry'']),
                         (''baseline'', JArr [JNum (Fin 10 0), JNum (Fin 5 0)]),
                         (''earlyassessment'', JArr [JNum (Fin 12 0), JNum (Fin 5 0)]),
                         (''growth'', JArr [JNum (Fin 20 0), JNum (Fin 0 0)])])])"
proof -
  have "productivity example_db
       = json (JObj [(''success'', JBool True),
                     (''data'', JObj
                        [(''sectors'', JArr [JStr ''Maize'', JStr ''Poultry'']),
                         (''baseline'', JArr [JNum (Fin 10 0), JNum (Fin 5 0)]),
                         (''earlyassessment'', JArr [JNum (Fin 12 0), JNum (Fin 5 0)]),
                         (''growth'', JArr [JNum (Fin 20 0), JNum (Fin 0 0)])])])"
    by (simp add: productivity_def find_all_def example_db_simps productivityData_map
        example_productivity_def field_def)
  then show ?thesis
    by (simp add: productivity_def productivityData_map)
qed

theorem productivity_parallel_arrays_witness:
  "find_all example_db ''Productivity'' = Inr example_productivity
   \<and> length (sectors (productivityData example_productivity)) = 2
   \<and> growth (productivityData example_productivity) ! 1 = JNum (Fin 0 0)
   \<and> body (productivity example_db)
       = JObj [(''success'', JBool True),
               (''data'', JObj
                  [(''sectors'', JArr [JStr ''Maize'', JStr ''Poultry'']),
                   (''baseline'', JArr [JNum (Fin 10 0), JNum (Fin 5 0)]),
                   (''earlyassessment'', JArr [JNum (Fin 12 0), JNum (Fin 5 0)]),
                   (''growth'', JArr [JNum (Fin 20 0), JNum (Fin 0 0)])])]"
proof -
  note fact = productivity_parallel_arrays [of example_db example_productivity]
  have len: "length example_productivity = 2"
    by (simp add: example_productivity_def)
  have db: "find_all example_db ''Productivity'' = Inr example_productivity"
    by (simp add: find_all_def example_db_simps)
  have "growth (productivityData example_productivity) ! 1
          = field (example_productivity ! 1) ''% Growth''"
    using fact len by simp
  then have last: "growth (productivityData example_productivity) ! 1 = JNum (Fin 0 0)"
    by (simp add: example_productivity_def field_def)
  have two: "length (sectors (productivityData example_productivity)) = 2"
    using fact len by simp
  have "productivity example_db
       = json (JObj [(''success'', JBool True),
                     (''data'', JObj
                        [(''sectors'', JArr [JStr ''Maize'', JStr ''Poultry'']),
                         (''baseline'', JArr [JNum (Fin 10 0), JNum (Fin 5 0)]),
                         (''earlyassessment'', JArr [JNum (Fin 12 0), JNum (Fin 5 0)]),
                         (''growth'', JArr [JNum (Fin 20 0), JNum (Fin 0 0)])])])"
    using fact by (elim conjE)
  then show ?thesis
    using db last two by (simp add: json_def)
qed

text \<open>
  C6: when the six count queries succeed, \<^verbatim>\<open>GET /api/market-surveys\<close> responds with the six
  counts \<open>aqua\<close>, \<open>cattle\<close>, \<open>fh\<close>, \<open>maize\<close>, \<open>poultry\<close> and \<open>qsr\<close>, each the number of documents
  of its collection (\<open>0\<close> for an empty one); when any one of the six queries fails, it
  responds with status 500 and the error body alone, without any count.
\<close>

theorem market_surveys_counts:
  "(db ''MarketSurveyAQUA'' = Inr aqua \<and> db ''MarketSurveyCATTLE'' = Inr cattle
      \<and> db ''MarketSurveyFH'' = Inr fh \<and> db ''MarketSurveyMAIZE'' = Inr maize
      \<and> db ''MarketSurveyPOULTRY'' = Inr poultry \<and> db ''MarketSurveyQSR'' = Inr qsr
    \<longrightarrow> market_surveys db
          = json (JObj [(''success'', JBool True),
                        (''data'', JObj
                           [(''aqua'', JNum (Fin (int (length aqua)) 0)),
                            (''cattle'', JNum (Fin (int (length cattle)) 0)),
                            (''fh'', JNum (Fin (int (length fh)) 0)),
                            (''maize'', JNum (Fin (int (length maize)) 0)),
                            (''poultry'', JNum (Fin (int (length poultry)) 0)),
                            (''qsr'', JNum (Fin (int (length qsr)) 0))])]))
   \<and> (name \<in> set survey_collections \<and> db name = Inl e
    \<longrightarrow> market_surveys db
          = status_json 500
              (JObj [(''success'', JBool False), (''message'', JStr ''Error fetching data'')]))"
proof (intro conjI impI)
  assume "db ''MarketSurveyAQUA'' = Inr aqua \<and> db ''MarketSurveyCATTLE'' = Inr cattle
      \<and> db ''MarketSurveyFH'' = Inr fh \<and> db ''MarketSurveyMAIZE'' = Inr maize
      \<and> db ''MarketSurveyPOULTRY'' = Inr poultry \<and> db ''MarketSurveyQSR'' = Inr qsr"
  then have "promise_all (map (countDocuments db) survey_collections)
               = Inr [length aqua, length cattle, length fh, length maize, length poultry,
                      length qsr]"
    by (simp add: survey_collections_def countDocuments_def)
  then show "market_surveys db
          = json (JObj [(''success'', JBool True),
                        (''data'', JObj
                           [(''aqua'', JNum (Fin (int (length aqua)) 0)),
                            (''cattle'', JNum (Fin (int (length cattle)) 0)),
                            (''fh'', JNum (Fin (int (length fh)) 0)),
                            (''maize'', JNum (Fin (int (length maize)) 0)),
                            (''poultry'', JNum (Fin (int (length poultry)) 0)),
                            (''qsr'', JNum (Fin (int (length qsr)) 0))])])"
    by (simp add: market_surveys_def)
next
  assume "name \<in> set survey_collections \<and> db name = Inl e"
  then have "Inl e \<in> set (map (countDocuments db) survey_collections)"
    by (force simp: countDocuments_def)
  then obtain e' where "promise_all (map (countDocuments db) survey_collections) = Inl e'"
    using promise_all_fails by blast
  then show "market_surveys db
          = status_json 500
              (JObj [(''success'', JBool False), (''message'', JStr ''Error fetching data'')])"
    by (rule market_surveys_error)
qed

theorem market_surveys_counts_witness:
  "market_surveys example_db
     = \<lparr>status = 200,
        body = JObj [(''success'', JBool True),
                     (''data'', JObj
                        [(''aqua'', JNum (Fin 2 0)), (''cattle'', JNum (Fin 0 0)),
                         (''fh'', JNum (Fin 0 0)), (''maize'', JNum (Fin 1 0)),
                         (''poultry'', JNum (Fin 0 0)), (''qsr'', JNum (Fin 0 0))])]\<rparr>
   \<and> ''MarketSurveyPOULTRY'' \<in> set survey_collections
   \<and> survey_down_db ''MarketSurveyPOULTRY'' = Inl QueryError
   \<and> market_surveys survey_down_db
     = \<lparr>status = 500,
        body = JObj [(''success'', JBool False), (''message'', JStr ''Error fetching data'')]\<rparr>"
  using market_surveys_counts
      [of example_db "[[(''n'', JNum (Fin 1 0))], [(''n'', JNum (Fin 2 0))]]" "[]" "[]"
          "[[(''n'', JNum (Fin 3 0))]]" "[]" "[]" "''x''" QueryError]
    market_surveys_counts
      [of survey_down_db "[]" "[]" "[]" "[]" "[]" "[]" "''MarketSurveyPOULTRY''" QueryError]
  by (simp add: example_db_def survey_down_db_def survey_collections_def json_def
      status_json_def)

text \<open>
  C7: for every collection name supplied by the caller, the route
  \<^verbatim>\<open>GET /api/collections/:collectionName\<close> responds \<^verbatim>\<open>{success: true, data}\<close> where \<open>data\<close> is
  the array of the documents of that collection, as many as the collection holds.  The
  name is not checked against \<open>VALID_COLLECTIONS\<close>: a name outside the list is served in
  the same way as a name inside it.
\<close>

theorem get_collection_any_name:
  assumes "db collectionName = Inr data"
  shows "(collectionName \<in> set VALID_COLLECTIONS \<longrightarrow>
            get_collection db collectionName
              = json (JObj [(''success'', JBool True), (''data'', JArr (map JObj data))]))
       \<and> (collectionName \<notin> set VALID_COLLECTIONS \<longrightarrow>
            get_collection db collectionName
              = json (JObj [(''success'', JBool True), (''data'', JArr (map JObj data))]))
       \<and> (\<exists>xs. get_collection db collectionName
                  = json (JObj [(''success'', JBool True), (''data'', JArr xs)])
                \<and> length xs = length data)"
  using assms by (simp add: get_collection_def find_all_def json_def)

theorem get_collection_any_name_witness:
  "example_db ''UsersMIS'' = Inr [alice, bob]
   \<and> ''UsersMIS'' \<notin> set VALID_COLLECTIONS
   \<and> get_collection example_db ''UsersMIS''
       = json (JObj [(''success'', JBool True), (''data'', JArr [JObj alice, JObj bob])])
   \<and> example_db ''A2F'' = Inr [example_a2f]
   \<and> ''A2F'' \<in> set VALID_COLLECTIONS
   \<and> get_collection example_db ''A2F''
       = json (JObj [(''success'', JBool True), (''data'', JArr [JObj example_a2f])])"
  using get_collection_any_name [of example_db "''UsersMIS''" "[alice, bob]"]
    get_collection_any_name [of example_db "''A2F''" "[example_a2f]"]
  by (simp add: example_db_simps example_users_def VALID_COLLECTIONS_def)

text \<open>
  C8, as the specification states it: each of the six designated fields of a participant
  is the stored value coerced to string, and the empty string when the field is absent.
  This fails for a stored value that is present but falsy: the participant whose \<open>ID\<close> is
  the number \<open>0\<close> is returned with the \<open>ID\<close> \<^verbatim>\<open>''\<close>, not \<^verbatim>\<open>'0'\<close>.
\<close>

theorem participant_zero_id:
  "map_of example_participant ''ID'' = Some (JNum (Fin 0 0))
   \<and> field (clean_participant example_participant) ''ID'' = JStr []
   \<and> spec_string_field example_participant ''ID'' = JStr ''0''
   \<and> field (clean_participant example_participant) ''ID''
       \<noteq> spec_string_field example_participant ''ID''"
proof -
  have stored: "map_of example_participant ''ID'' = Some (JNum (Fin 0 0))"
    by (simp add: example_participant_def)
  then have "field example_participant ''ID'' = JNum (Fin 0 0)"
    by (simp add: field_def)
  then have code: "field (clean_participant example_participant) ''ID'' = JStr []"
    by (simp add: field_clean_participant participant_fields_def js_or_def)
  have spec: "spec_string_field example_participant ''ID'' = JStr ''0''"
    using stored by (simp add: spec_string_field_def number_print)
  from stored code spec show ?thesis by simp
qed

text \<open>
  C8, amended: in every document returned by \<^verbatim>\<open>GET /api/participants\<close>, each of the six
  designated fields is a string: the stored value coerced to string when that value is
  truthy, and the empty string when the field is absent or its value is falsy (\<open>0\<close>,
  \<^verbatim>\<open>false\<close>, \<^verbatim>\<open>null\<close>, \<^verbatim>\<open>NaN\<close> or the empty string).
\<close>

theorem participants_strings:
  "(find_all db ''ParticipantPROFILE'' = Inr data \<longrightarrow>
      participants db
        = json (JObj [(''success'', JBool True),
                      (''data'', JArr (map (\<lambda>p. JObj (clean_participant p)) data))]))
   \<and> length participant_fields = 6
   \<and> (k \<in> set participant_fields \<longrightarrow>
        field (clean_participant p) k
          = JStr (if truthy (field p k) then js_String (field p k) else [])
        \<and> (map_of p k = None \<longrightarrow> field (clean_participant p) k = JStr []))"
  by (simp add: participants_def field_clean_participant js_or_def field_absent)
     (simp add: participant_fields_def)

theorem participants_strings_witness:
  "''WorkingSectorP4P'' \<in> set participant_fields
   \<and> field example_participant ''WorkingSectorP4P'' = JNum (Fin 125 1)
   \<and> field (clean_participant example_participant) ''WorkingSectorP4P'' = JStr ''12.5''
   \<and> ''pAddressDISTRICT'' \<in> set participant_fields
   \<and> map_of example_participant ''pAddressDISTRICT'' = None
   \<and> field (clean_participant example_participant) ''pAddressDISTRICT'' = JStr []
   \<and> find_all example_db ''ParticipantPROFILE'' = Inr [example_participant]
   \<and> participants example_db
       = json (JObj [(''success'', JBool True),
                     (''data'', JArr [JObj (clean_participant example_participant)])])"
proof -
  note fact = participants_strings [of example_db "[example_participant]" _ example_participant]
  have str: "num_to_string (Fin 125 1) = ''12.5''"
    by (simp add: number_print)
  have db: "find_all example_db ''ParticipantPROFILE'' = Inr [example_participant]"
    by (simp add: find_all_def example_db_simps)
  have sector: "field example_participant ''WorkingSectorP4P'' = JNum (Fin 125 1)"
    and district: "map_of example_participant ''pAddressDISTRICT'' = None"
    by (simp_all add: example_participant_def field_def)
  have mem: "''WorkingSectorP4P'' \<in> set participant_fields"
      "''pAddressDISTRICT'' \<in> set participant_fields"
    by (simp_all add: participant_fields_def)
  have "field (clean_participant example_participant) ''WorkingSectorP4P''
          = JStr (if truthy (field example_participant ''WorkingSectorP4P'')
                  then js_String (field example_participant ''WorkingSectorP4P'') else [])"
    using fact [of "''WorkingSectorP4P''"] mem(1) by blast
  with str have one: "field (clean_participant example_participant) ''WorkingSectorP4P''
                    = JStr ''12.5''"
    by (simp add: sector)
  have two: "field (clean_participant example_participant) ''pAddressDISTRICT'' = JStr []"
    using fact [of "''pAddressDISTRICT''"] mem(2) district by blast
  have three: "participants example_db
       = json (JObj [(''success'', JBool True),
                     (''data'', JArr [JObj (clean_participant example_participant)])])"
    using fact [of "''ID''"] db by simp
  from mem sector one district two db three show ?thesis by simp
qed



text \<open>
  C10: the coercions of \<^verbatim>\<open>GET /api/participants\<close>, \<^verbatim>\<open>GET /api/a2f\<close> and \<^verbatim>\<open>GET /api/a2m\<close> leave
  every other field as it is stored: the fields of the returned document that are not
  designated are those of the stored document, with the same values and in the same
  order, and the returned document has no field beyond the stored and the designated ones.
\<close>

theorem other_fields_unchanged:
  "filter (\<lambda>e. fst e \<notin> set participant_fields) (clean_participant p)
     = filter (\<lambda>e. fst e \<notin> set participant_fields) p
   \<and> filter (\<lambda>e. fst e \<notin> set a2f_fields) (clean_a2f p)
     = filter (\<lambda>e. fst e \<notin> set a2f_fields) p
   \<and> filter (\<lambda>e. fst e \<notin> set a2m_fields) (clean_a2m p)
     = filter (\<lambda>e. fst e \<notin> set a2m_fields) p
   \<and> fst ` set (clean_participant p) = fst ` set p \<union> set participant_fields
   \<and> fst ` set (clean_a2f p) = fst ` set p \<union> set a2f_fields
   \<and> fst ` set (clean_a2m p) = fst ` set p \<union> set a2m_fields
   \<and> (k \<notin> set participant_fields \<longrightarrow> field (clean_participant p) k = field p k)
   \<and> (k \<notin> set a2f_fields \<longrightarrow> field (clean_a2f p) k = field p k)
   \<and> (k \<notin> set a2m_fields \<longrightarrow> field (clean_a2m p) k = field p k)"
proof -
  have "filter (\<lambda>e. fst e \<notin> set participant_fields) (clean_participant p)
          = filter (\<lambda>e. fst e \<notin> set participant_fields) p"
    unfolding clean_participant_def
    by (rule filter_spread) (simp add: participant_fields_def)
  moreover have "filter (\<lambda>e. fst e \<notin> set a2f_fields) (clean_a2f p)
          = filter (\<lambda>e. fst e \<notin> set a2f_fields) p"
    unfolding clean_a2f_def
    by (rule filter_spread) (simp add: a2f_fields_def)
  moreover have "filter (\<lambda>e. fst e \<notin> set a2m_fields) (clean_a2m p)
          = filter (\<lambda>e. fst e \<notin> set a2m_fields) p"
    unfolding clean_a2m_def
    by (rule filter_spread) (simp add: a2m_fields_def)
  moreover have "fst ` set (clean_participant p) = fst ` set p \<union> set participant_fields"
    by (simp add: clean_participant_def keys_spread participant_fields_def)
  moreover have "fst ` set (clean_a2f p) = fst ` set p \<union> set a2f_fields"
    by (simp add: clean_a2f_def keys_spread a2f_fields_def)
  moreover have "fst ` set (clean_a2m p) = fst ` set p \<union> set a2m_fields"
    by (simp add: clean_a2m_def keys_spread a2m_fields_def)
  ultimately show ?thesis
    by (simp add: other_clean_participant other_clean_a2f other_clean_a2m)
qed

theorem other_fields_unchanged_witness:
  "''ParticipantAGE'' \<notin> set participant_fields
   \<and> field (clean_participant example_participant) ''ParticipantAGE'' = JNum (Fin 31 0)
   \<and> ''Bank'' \<notin> set a2f_fields
   \<and> field (clean_a2f example_a2f) ''Bank'' = JStr ''NMB''
   \<and> ''Buyer'' \<notin> set a2m_fields
   \<and> field (clean_a2m example_a2m) ''Buyer'' = JStr ''Coop''
   \<and> filter (\<lambda>e. fst e \<notin> set a2m_fields) (clean_a2m example_a2m)
       = [(''_id'', JStr ''m1''), (''Buyer'', JStr ''Coop'')]"
proof -
  have rest: "filter (\<lambda>e. fst e \<notin> set a2m_fields) example_a2m
                = [(''_id'', JStr ''m1''), (''Buyer'', JStr ''Coop'')]"
    by (simp add: example_a2m_def a2m_fields_def)
  have stored: "field example_participant ''ParticipantAGE'' = JNum (Fin 31 0)"
      "field example_a2f ''Bank'' = JStr ''NMB''" "field example_a2m ''Buyer'' = JStr ''Coop''"
    by (simp_all add: example_participant_def example_a2f_def example_a2m_def field_def)
  have out: "''ParticipantAGE'' \<notin> set participant_fields" "''Bank'' \<notin> set a2f_fields"
      "''Buyer'' \<notin> set a2m_fields"
    by (simp_all add: participant_fields_def a2f_fields_def a2m_fields_def)
  show ?thesis
    using other_fields_unchanged [of example_participant "''ParticipantAGE''"]
      other_fields_unchanged [of example_a2f "''Bank''"]
      other_fields_unchanged [of example_a2m "''Buyer''"]
      rest stored out
    by simp
qed

end
